theory Spec2Isabelle
  imports Main
begin

section \<open>Documents, tokens and errors\<close>

text \<open>
  The team service of \<^verbatim>\<open>src/services/Team.ts\<close> works on three Mongoose collections
  (users, teams, team invites). A collection is modelled as the list of its documents
  in insertion order; a document is a record. \<^verbatim>\<open>ObjectId\<close>s are natural numbers and
  dates are millisecond timestamps. A reference held in a document (\<^verbatim>\<open>invite.team\<close>,
  an entry of \<^verbatim>\<open>team.members\<close>) is stored as the identifier and resolved through the
  collection when the code navigates it (the code reads \<^verbatim>\<open>invite.team.members\<close> and
  \<^verbatim>\<open>member.teams\<close>, so it takes these references to be documents); a reference
  whose document is gone resolves to \<^verbatim>\<open>null\<close>, and reading a property of
  \<^verbatim>\<open>null\<close> or \<^verbatim>\<open>undefined\<close> is the JavaScript \<^verbatim>\<open>TypeError\<close>. Writes to the store (\<^verbatim>\<open>save\<close>, \<^verbatim>\<open>create\<close>,
  \<^verbatim>\<open>delete\<close>) succeed, also the ones the code does not await. The field
  \<^verbatim>\<open>CTFs\<close> of a team, which the service only initialises, is left out.
\<close>

type_synonym ObjectId = nat
type_synonym Date = int

record IUserModel =
  user_id :: ObjectId
  isAdmin :: bool
  teams :: "ObjectId list"

record Socials =
  twitter :: "string option"
  website :: "string option"

record ITeamModel =
  team_id :: ObjectId
  name :: string
  owner :: "ObjectId option"
  members :: "ObjectId list"
  socials :: Socials
  invites :: "ObjectId list"

record ITeamInviteModel =
  invite_id :: ObjectId
  team :: ObjectId
  inviteCode :: string
  expiry :: "Date option"
  maxUses :: "int option"
  createdAt :: Date
  createdByUser :: ObjectId
  uses :: "ObjectId list"

record store =
  UserModel :: "IUserModel list"
  TeamModel :: "ITeamModel list"
  TeamInviteModel :: "ITeamInviteModel list"
  nextId :: ObjectId

text \<open>The request types of \<^verbatim>\<open>../types\<close>: every field of a patch is optional.\<close>

record SocialsUpdateData =
  new_twitter :: "string option"
  new_website :: "string option"

record TeamDetailsUpdateData =
  new_name :: "string option"
  new_socials :: "SocialsUpdateData option"

record InviteOptions =
  opt_expiry :: "Date option"
  opt_maxUses :: "int option"

text \<open>
  The payload of a token, and what the \<^verbatim>\<open>jsonwebtoken\<close> library makes of a token
  string: \<^verbatim>\<open>verify\<close> returns the payload of a well-formed token with a good signature
  that has not expired and throws on every other one; \<^verbatim>\<open>decode\<close> returns the payload
  of every well-formed token, checking nothing, and \<^verbatim>\<open>null\<close> for a malformed one.
\<close>

datatype JWTData = JWTData (jwt_id: ObjectId) (jwt_isAdmin: bool)

datatype jwt = Malformed | Unverifiable JWTData | Signed JWTData

fun verify :: "jwt \<Rightarrow> JWTData option" where
  "verify (Signed d) = Some d"
| "verify (Unverifiable d) = None"
| "verify Malformed = None"

fun decode :: "jwt \<Rightarrow> JWTData option" where
  "decode (Signed d) = Some d"
| "decode (Unverifiable d) = Some d"
| "decode Malformed = None"

text \<open>
  The errors of \<^verbatim>\<open>../types/httperrors\<close> with the options they are built from, and
  the JavaScript \<^verbatim>\<open>TypeError\<close> of a property read on \<^verbatim>\<open>null\<close> or \<^verbatim>\<open>undefined\<close>.
\<close>

record ErrorOptions =
  errorCode :: "string option"
  errorMessage :: "string option"
  details :: "string option"

datatype error =
    BadRequestError ErrorOptions
  | ConflictError ErrorOptions
  | NotFoundError ErrorOptions
  | UnauthorizedError ErrorOptions
  | InternalServerError
  | TypeError

definition withCode :: "string \<Rightarrow> ErrorOptions" where
  "withCode c = \<lparr>errorCode = Some c, errorMessage = None, details = None\<rparr>"

definition withMessage :: "string \<Rightarrow> ErrorOptions" where
  "withMessage m = \<lparr>errorCode = None, errorMessage = Some m, details = None\<rparr>"

definition invalidJWT :: error where
  "invalidJWT = BadRequestError (withMessage ''Invalid JWT'')"

section \<open>The store and the JavaScript helpers\<close>

definition findById :: "('d \<Rightarrow> ObjectId) \<Rightarrow> 'd list \<Rightarrow> ObjectId \<Rightarrow> 'd option" where
  "findById key docs i = find (\<lambda>d. key d = i) docs"

definition findOne :: "ITeamInviteModel list \<Rightarrow> string \<Rightarrow> ITeamInviteModel option" where
  "findOne docs c = find (\<lambda>d. inviteCode d = c) docs"

definition save :: "('d \<Rightarrow> ObjectId) \<Rightarrow> 'd \<Rightarrow> 'd list \<Rightarrow> 'd list" where
  "save key x docs = map (\<lambda>d. if key d = key x then x else d) docs"

definition delete :: "('d \<Rightarrow> ObjectId) \<Rightarrow> 'd \<Rightarrow> 'd list \<Rightarrow> 'd list" where
  "delete key x docs = filter (\<lambda>d. key d \<noteq> key x) docs"

text \<open>\<^verbatim>\<open>Array.prototype.indexOf\<close>: the first index of the element, or \<open>-1\<close>.\<close>

fun indexOf :: "'a list \<Rightarrow> 'a \<Rightarrow> int" where
  "indexOf [] y = -1"
| "indexOf (x # xs) y =
     (if x = y then 0 else (let i = indexOf xs y in if i < 0 then -1 else i + 1))"

text \<open>
  \<^verbatim>\<open>Array.prototype.splice(start, deleteCount)\<close>: a negative start counts from the
  end; the call removes the elements in place and RETURNS THE REMOVED ELEMENTS. The
  pair is (returned array, array left behind).
\<close>

definition spliceArray :: "'a list \<Rightarrow> int \<Rightarrow> int \<Rightarrow> 'a list \<times> 'a list" where
  "spliceArray xs start deleteCount =
     (let len = int (length xs);
          actualStart = (if start < 0 then max (len + start) 0 else min start len);
          actualDeleteCount = min (max deleteCount 0) (len - actualStart);
          s = nat actualStart;
          c = nat actualDeleteCount
      in (take c (drop s xs), take s xs @ drop (s + c) xs))"

text \<open>JavaScript truthiness of an optional string and of an optional number.\<close>

fun truthyString :: "string option \<Rightarrow> bool" where
  "truthyString None = False"
| "truthyString (Some s) = (s \<noteq> [])"

fun truthyNumber :: "int option \<Rightarrow> bool" where
  "truthyNumber None = False"
| "truthyNumber (Some n) = (n \<noteq> 0)"

text \<open>
  \<^verbatim>\<open>a >= b\<close> where \<open>b\<close> may be \<^verbatim>\<open>undefined\<close>: the comparison with
  \<^verbatim>\<open>undefined\<close> (a NaN, as is the time of \<^verbatim>\<open>new Date(undefined)\<close>) is false.
\<close>

fun geUndefined :: "int \<Rightarrow> int option \<Rightarrow> bool" where
  "geUndefined a None = False"
| "geUndefined a (Some b) = (b \<le> a)"

text \<open>
  Modelled from the spec: the methods \<^verbatim>\<open>isOwner\<close> and \<^verbatim>\<open>inTeam\<close> of the team model
  (\<^verbatim>\<open>../models/Team\<close> is not among the sources). The owner is the team's single owner
  reference; a user is in the team when they are in its member list, and the owner
  counts as a member.
\<close>

definition isOwner :: "ITeamModel \<Rightarrow> IUserModel \<Rightarrow> bool" where
  "isOwner tm u = (owner tm = Some (user_id u))"

definition inTeam :: "ITeamModel \<Rightarrow> IUserModel \<Rightarrow> bool" where
  "inTeam tm u = (isOwner tm u \<or> user_id u \<in> set (members tm))"

section \<open>TeamService (src/services/Team.ts)\<close>

text \<open>
  Every operation takes the store and returns its outcome (\<open>Inl\<close> the error thrown,
  \<open>Inr\<close> the value returned) together with the store it leaves behind.
\<close>

type_synonym 'a outcome = "(error + 'a) \<times> store"

text \<open>
  \<^verbatim>\<open>createTeam\<close> calls \<^verbatim>\<open>String.prototype.toLowerCase\<close>, which lowers every cased
  character of Unicode by the case mapping of the JavaScript engine. The mapping is no
  part of the repository, so the function is the first argument of \<^verbatim>\<open>createTeam\<close>,
  under its own name, and what is proved of \<^verbatim>\<open>createTeam\<close> for every such argument
  holds of the library function.
\<close>

definition createTeam ::
  "(string \<Rightarrow> string) \<Rightarrow> store \<Rightarrow> jwt \<Rightarrow> string \<Rightarrow> (string \<times> ObjectId) outcome" where
  "createTeam toLowerCase st token teamName =
     (if find (\<lambda>t. name t = toLowerCase teamName) (TeamModel st) \<noteq> None
      then (Inl (ConflictError (withCode ''error_team_exists'')), st)
      else (case verify token of
        None \<Rightarrow> (Inl invalidJWT, st)
      | Some decodedJWT \<Rightarrow>
          (let ownr = findById user_id (UserModel st) (jwt_id decodedJWT);
               tm = \<lparr>team_id = nextId st, name = toLowerCase teamName,
                     owner = map_option user_id ownr, members = [],
                     socials = \<lparr>twitter = None, website = None\<rparr>, invites = []\<rparr>;
               st1 = st\<lparr>TeamModel := TeamModel st @ [tm], nextId := Suc (nextId st)\<rparr>
           in (case ownr of
                 None \<Rightarrow> (Inl TypeError, st1)
               | Some u \<Rightarrow>
                   (Inr (name tm, team_id tm),
                    st1\<lparr>UserModel :=
                      save user_id (u\<lparr>teams := teams u @ [team_id tm]\<rparr>) (UserModel st1)\<rparr>)))))"

definition getTeam :: "store \<Rightarrow> jwt \<Rightarrow> ObjectId \<Rightarrow> error + ITeamModel" where
  "getTeam st token teamID =
     (case verify token of
        None \<Rightarrow> Inl invalidJWT
      | Some decodedJWT \<Rightarrow>
          (case findById user_id (UserModel st) (jwt_id decodedJWT) of
             None \<Rightarrow> Inl TypeError
           | Some u \<Rightarrow>
               (case findById team_id (TeamModel st) teamID of
                  None \<Rightarrow> Inl (NotFoundError (withCode ''error_team_not_found''))
                | Some tm \<Rightarrow>
                    if \<not> isAdmin u \<and> \<not> inTeam tm u
                    then Inl (UnauthorizedError (withCode ''error_invalid_permissionseeeee''))
                    else Inr tm)))"

text \<open>
  The three guarded assignments of \<^verbatim>\<open>updateTeam\<close>, on the team document in memory.
  The third one assigns \<^verbatim>\<open>newDetails.socials.twitter\<close>, as the source does.
\<close>

definition applyDetails :: "ITeamModel \<Rightarrow> TeamDetailsUpdateData \<Rightarrow> ITeamModel" where
  "applyDetails tm newDetails =
     (let t1 = (case new_name newDetails of
                  None \<Rightarrow> tm
                | Some n \<Rightarrow> if truthyString (Some n) then tm\<lparr>name := n\<rparr> else tm);
          tw = (case new_socials newDetails of None \<Rightarrow> None | Some s \<Rightarrow> new_twitter s);
          ws = (case new_socials newDetails of None \<Rightarrow> None | Some s \<Rightarrow> new_website s);
          t2 = (if truthyString tw
                then t1\<lparr>socials := (socials t1)\<lparr>twitter := tw\<rparr>\<rparr> else t1);
          t3 = (if truthyString ws
                then t2\<lparr>socials := (socials t2)\<lparr>website := tw\<rparr>\<rparr> else t2)
      in t3)"

definition updateTeam ::
  "store \<Rightarrow> jwt \<Rightarrow> ObjectId \<Rightarrow> TeamDetailsUpdateData \<Rightarrow> ITeamModel outcome" where
  "updateTeam st token teamID newDetails =
     (case getTeam st token teamID of
        Inl e \<Rightarrow> (Inl e, st)
      | Inr tm \<Rightarrow>
          (let tm' = applyDetails tm newDetails
           in (Inr tm', st\<lparr>TeamModel := save team_id tm' (TeamModel st)\<rparr>)))"

definition updateOwner :: "store \<Rightarrow> jwt \<Rightarrow> ObjectId \<Rightarrow> ObjectId \<Rightarrow> ITeamModel outcome" where
  "updateOwner st token teamID newOwnerID =
     (case decode token of
        None \<Rightarrow> (Inl TypeError, st)
      | Some decodedJWT \<Rightarrow>
          (case getTeam st token teamID of
             Inl e \<Rightarrow> (Inl e, st)
           | Inr tm \<Rightarrow>
               (case findById user_id (UserModel st) (jwt_id decodedJWT) of
                  None \<Rightarrow> (Inl TypeError, st)
                | Some oldOwner \<Rightarrow>
                    (case findById user_id (UserModel st) newOwnerID of
                       None \<Rightarrow> (Inl TypeError, st)
                     | Some newOwner \<Rightarrow>
                         if \<not> jwt_isAdmin decodedJWT \<and> \<not> inTeam tm newOwner
                         then (Inl (BadRequestError (withMessage
                                 ''New owner must be in team before transfer of ownership'')), st)
                         else if \<not> jwt_isAdmin decodedJWT \<and> \<not> isOwner tm oldOwner
                         then (Inl (BadRequestError
                                 \<lparr>errorCode = Some ''error_user_not_owner'',
                                  errorMessage = Some ''Cannot transfer ownership'',
                                  details = None\<rparr>), st)
                         else (let tm' = tm\<lparr>owner := Some (user_id newOwner)\<rparr>
                               in (Inr tm',
                                   st\<lparr>TeamModel := save team_id tm' (TeamModel st)\<rparr>))))))"

text \<open>
  \<^verbatim>\<open>createInvite\<close> reads two values of its environment, passed here as arguments:
  the six hexadecimal digits of \<^verbatim>\<open>randomBytes(3)\<close> and the current date. An expiry
  that is given is a date, which is truthy; a \<^verbatim>\<open>maxUses\<close> of 0 is falsy and is stored
  as \<^verbatim>\<open>undefined\<close>.
\<close>

definition createInvite ::
  "store \<Rightarrow> jwt \<Rightarrow> ObjectId \<Rightarrow> InviteOptions \<Rightarrow> string \<Rightarrow> Date \<Rightarrow> ITeamInviteModel outcome" where
  "createInvite st token teamID inviteOptions randomCode now =
     (case verify token of
        None \<Rightarrow> (Inl invalidJWT, st)
      | Some decodedJWT \<Rightarrow>
          (case findById user_id (UserModel st) (jwt_id decodedJWT) of
             None \<Rightarrow> (Inl TypeError, st)
           | Some u \<Rightarrow>
               (case findById team_id (TeamModel st) teamID of
                  None \<Rightarrow> (Inl TypeError, st)
                | Some tm \<Rightarrow>
                    if \<not> isAdmin u \<and> \<not> isOwner tm u
                    then (Inl (BadRequestError
                            \<lparr>errorCode = Some ''error_invalid_permissions'',
                             errorMessage = Some ''Only the team owner can create invites'',
                             details = None\<rparr>), st)
                    else (let invite =
                                \<lparr>invite_id = nextId st, team = team_id tm,
                                 inviteCode = randomCode,
                                 expiry = opt_expiry inviteOptions,
                                 maxUses = (if truthyNumber (opt_maxUses inviteOptions)
                                            then opt_maxUses inviteOptions else None),
                                 createdAt = now, createdByUser = user_id u, uses = []\<rparr>;
                              tm' = tm\<lparr>invites := invites tm @ [invite_id invite]\<rparr>
                          in (Inr invite,
                              st\<lparr>TeamInviteModel := TeamInviteModel st @ [invite],
                                 TeamModel := save team_id tm' (TeamModel st),
                                 nextId := Suc (nextId st)\<rparr>)))))"

text \<open>
  \<^verbatim>\<open>getInvite\<close> returns the invite document as found (\<^verbatim>\<open>null\<close> when there is
  none) to an admin, and \<^verbatim>\<open>basicInvite(invite)\<close> to everybody else. The function
  \<^verbatim>\<open>basicInvite\<close> of \<^verbatim>\<open>../util\<close> is not among the sources and is a parameter, as is
  the current date. The token is optional: \<open>None\<close> is a token that is \<^verbatim>\<open>undefined\<close>
  or the empty string, the two falsy values of \<^verbatim>\<open>if (jwt)\<close>.
\<close>

datatype 'b inviteView = FullInvite "ITeamInviteModel option" | BasicInvite 'b

definition getInvite ::
  "(ITeamInviteModel \<Rightarrow> 'b) \<Rightarrow> Date \<Rightarrow> store \<Rightarrow> jwt option \<Rightarrow> string \<Rightarrow> 'b inviteView outcome" where
  "getInvite basicInvite now st token inviteID =
     (let invite = findOne (TeamInviteModel st) inviteID
      in (case (case token of
                  None \<Rightarrow> Inr None
                | Some j \<Rightarrow>
                    (case verify j of
                       None \<Rightarrow> Inl invalidJWT
                     | Some decodedJWT \<Rightarrow>
                         Inr (findById user_id (UserModel st) (jwt_id decodedJWT)))) of
            Inl e \<Rightarrow> (Inl e, st)
          | Inr user \<Rightarrow>
              if (case user of None \<Rightarrow> False | Some u \<Rightarrow> isAdmin u)
              then (Inr (FullInvite invite), st)
              else (case invite of
                      None \<Rightarrow> (Inl TypeError, st)
                    | Some iv \<Rightarrow>
                        if geUndefined (int (length (uses iv))) (maxUses iv)
                           \<or> geUndefined now (expiry iv)
                        then (Inl (BadRequestError (withCode ''error_expired_invite'')), st)
                        else (Inr (BasicInvite (basicInvite iv)), st))))"

definition deleteInvite :: "store \<Rightarrow> jwt \<Rightarrow> string \<Rightarrow> unit outcome" where
  "deleteInvite st token inviteID =
     (case verify token of
        None \<Rightarrow> (Inl invalidJWT, st)
      | Some decodedJWT \<Rightarrow>
          (case findOne (TeamInviteModel st) inviteID of
             None \<Rightarrow> (Inl (NotFoundError (withMessage ''Invite not found'')), st)
           | Some iv \<Rightarrow>
               (case findById user_id (UserModel st) (jwt_id decodedJWT) of
                  None \<Rightarrow> (Inl TypeError, st)
                | Some u \<Rightarrow>
                    if isAdmin u
                    then (Inr (), st\<lparr>TeamInviteModel :=
                                       delete invite_id iv (TeamInviteModel st)\<rparr>)
                    else (case findById team_id (TeamModel st) (team iv) of
                            None \<Rightarrow> (Inl TypeError, st)
                          | Some tm \<Rightarrow>
                              if \<not> isOwner tm u
                              then (Inl (BadRequestError
                                      (withCode ''error_invalid_permissions'')), st)
                              else (Inr (), st\<lparr>TeamInviteModel :=
                                       delete invite_id iv (TeamInviteModel st)\<rparr>)))))"

definition useInvite :: "store \<Rightarrow> jwt \<Rightarrow> string \<Rightarrow> ITeamModel outcome" where
  "useInvite st token inviteID =
     (case verify token of
        None \<Rightarrow> (Inl invalidJWT, st)
      | Some decodedJWT \<Rightarrow>
          (case findOne (TeamInviteModel st) inviteID of
             None \<Rightarrow> (Inl (NotFoundError (withMessage ''Invite not found'')), st)
           | Some iv \<Rightarrow>
               (case findById team_id (TeamModel st) (team iv) of
                  None \<Rightarrow> (Inl TypeError, st)
                | Some tm \<Rightarrow>
                    (case findById user_id (UserModel st) (jwt_id decodedJWT) of
                       None \<Rightarrow> (Inl TypeError, st)
                     | Some u \<Rightarrow>
                         (let tm' = tm\<lparr>members := members tm @ [user_id u]\<rparr>;
                              u' = u\<lparr>teams := teams u @ [team_id tm]\<rparr>;
                              iv' = iv\<lparr>uses := uses iv @ [user_id u]\<rparr>
                          in (Inr tm',
                              st\<lparr>TeamModel := save team_id tm' (TeamModel st),
                                 UserModel := save user_id u' (UserModel st),
                                 TeamInviteModel :=
                                   save invite_id iv' (TeamInviteModel st)\<rparr>))))))"

definition leaveTeam :: "store \<Rightarrow> jwt \<Rightarrow> ObjectId \<Rightarrow> unit outcome" where
  "leaveTeam st token teamID =
     (case verify token of
        None \<Rightarrow> (Inl invalidJWT, st)
      | Some decodedJWT \<Rightarrow>
          (case findById team_id (TeamModel st) teamID of
             None \<Rightarrow> (Inl (NotFoundError (withCode ''error_team_not_found'')), st)
           | Some tm \<Rightarrow>
               (case findById user_id (UserModel st) (jwt_id decodedJWT) of
                  None \<Rightarrow> (Inl TypeError, st)
                | Some u \<Rightarrow>
                    if isOwner tm u
                    then (Inl (ConflictError
                            \<lparr>errorCode = None,
                             errorMessage = Some ''Owner may not leave team'',
                             details = Some ''The owner of a team cannot leave it without first changing the owner to a different member''\<rparr>), st)
                    else if \<not> inTeam tm u
                    then (Inl (ConflictError
                            \<lparr>errorCode = Some ''error_not_in_team'',
                             errorMessage = Some ''Cannot leave team'',
                             details = None\<rparr>), st)
                    else (let tm' = tm\<lparr>members :=
                                 fst (spliceArray (members tm) (indexOf (members tm) (user_id u)) 1)\<rparr>;
                              u' = u\<lparr>teams :=
                                 fst (spliceArray (teams u) (indexOf (teams u) (team_id tm)) 1)\<rparr>
                          in (Inr (),
                              st\<lparr>TeamModel := save team_id tm' (TeamModel st),
                                 UserModel := save user_id u' (UserModel st)\<rparr>)))))"

text \<open>
  The loop of \<^verbatim>\<open>deleteTeam\<close> over \<^verbatim>\<open>team.members\<close>: each member's document gets
  the array that \<^verbatim>\<open>splice\<close> returns as its team list and is saved. A member whose
  document is gone stops the loop with the \<^verbatim>\<open>TypeError\<close>, after the saves already
  issued.
\<close>

fun removeFromMembers ::
  "ObjectId \<Rightarrow> ObjectId list \<Rightarrow> IUserModel list \<Rightarrow> (error + unit) \<times> IUserModel list" where
  "removeFromMembers tid [] users = (Inr (), users)"
| "removeFromMembers tid (m # ms) users =
     (case findById user_id users m of
        None \<Rightarrow> (Inl TypeError, users)
      | Some member \<Rightarrow>
          removeFromMembers tid ms
            (save user_id
               (member\<lparr>teams := fst (spliceArray (teams member) (indexOf (teams member) tid) 1)\<rparr>)
               users))"

definition deleteTeam :: "store \<Rightarrow> jwt \<Rightarrow> ObjectId \<Rightarrow> unit outcome" where
  "deleteTeam st token teamID =
     (case verify token of
        None \<Rightarrow> (Inl invalidJWT, st)
      | Some decodedJWT \<Rightarrow>
          (case findById user_id (UserModel st) (jwt_id decodedJWT) of
             None \<Rightarrow> (Inl TypeError, st)
           | Some u \<Rightarrow>
               (case findById team_id (TeamModel st) teamID of
                  None \<Rightarrow> (Inl TypeError, st)
                | Some tm \<Rightarrow>
                    if \<not> isAdmin u \<and> \<not> isOwner tm u
                    then (Inl (BadRequestError
                            \<lparr>errorCode = Some ''error_invalid_permissions'',
                             errorMessage = Some ''Only the team owner can delete the team'',
                             details = None\<rparr>), st)
                    else (let u' = u\<lparr>teams :=
                                 fst (spliceArray (teams u) (indexOf (teams u) (team_id tm)) 1)\<rparr>
                          in (case removeFromMembers (team_id tm) (members tm) (UserModel st) of
                                (Inl e, users1) \<Rightarrow> (Inl e, st\<lparr>UserModel := users1\<rparr>)
                              | (Inr _, users1) \<Rightarrow>
                                  (Inr (),
                                   st\<lparr>UserModel := save user_id u' users1,
                                      TeamModel := delete team_id tm (TeamModel st)\<rparr>))))))"

section \<open>The logging-instrumented TeamService (the variant in src/unnamed)\<close>

text \<open>
  Modelled from the spec: \<^verbatim>\<open>verifyJWT\<close> of \<^verbatim>\<open>../util\<close> (not among the sources), the
  identity verifier: given a token it returns the caller identity or fails with the
  authentication error, which is the \<^verbatim>\<open>BadRequestError\<close> "Invalid JWT" of the
  inlined check that it replaces.
\<close>

definition verifyJWT :: "jwt \<Rightarrow> error + JWTData" where
  "verifyJWT token = (case verify token of None \<Rightarrow> Inl invalidJWT | Some d \<Rightarrow> Inr d)"

definition createTeam_logged ::
  "(string \<Rightarrow> string) \<Rightarrow> store \<Rightarrow> jwt \<Rightarrow> string \<Rightarrow> (string \<times> ObjectId) outcome" where
  "createTeam_logged toLowerCase st token teamName =
     (if find (\<lambda>t. name t = toLowerCase teamName) (TeamModel st) \<noteq> None
      then (Inl (ConflictError (withCode ''error_team_exists'')), st)
      else (case verifyJWT token of
        Inl e \<Rightarrow> (Inl e, st)
      | Inr decodedJWT \<Rightarrow>
          (let ownr = findById user_id (UserModel st) (jwt_id decodedJWT);
               tm = \<lparr>team_id = nextId st, name = toLowerCase teamName,
                     owner = map_option user_id ownr, members = [],
                     socials = \<lparr>twitter = None, website = None\<rparr>, invites = []\<rparr>;
               st1 = st\<lparr>TeamModel := TeamModel st @ [tm], nextId := Suc (nextId st)\<rparr>
           in (case ownr of
                 None \<Rightarrow> (Inl TypeError, st1)
               | Some u \<Rightarrow>
                   (Inr (name tm, team_id tm),
                    st1\<lparr>UserModel :=
                      save user_id (u\<lparr>teams := teams u @ [team_id tm]\<rparr>) (UserModel st1)\<rparr>)))))"

definition getTeam_logged :: "store \<Rightarrow> jwt \<Rightarrow> ObjectId \<Rightarrow> error + ITeamModel" where
  "getTeam_logged st token teamID =
     (case verifyJWT token of
        Inl e \<Rightarrow> Inl e
      | Inr decodedJWT \<Rightarrow>
          (case findById user_id (UserModel st) (jwt_id decodedJWT) of
             None \<Rightarrow> Inl TypeError
           | Some u \<Rightarrow>
               (case findById team_id (TeamModel st) teamID of
                  None \<Rightarrow> Inl (NotFoundError (withCode ''error_team_not_found''))
                | Some tm \<Rightarrow>
                    if \<not> isAdmin u \<and> \<not> inTeam tm u
                    then Inl (UnauthorizedError (withCode ''error_invalid_permissions''))
                    else Inr tm)))"

definition updateTeam_logged ::
  "store \<Rightarrow> jwt \<Rightarrow> ObjectId \<Rightarrow> TeamDetailsUpdateData \<Rightarrow> ITeamModel outcome" where
  "updateTeam_logged st token teamID newDetails =
     (case getTeam_logged st token teamID of
        Inl e \<Rightarrow> (Inl e, st)
      | Inr tm \<Rightarrow>
          (let tm' = applyDetails tm newDetails
           in (Inr tm', st\<lparr>TeamModel := save team_id tm' (TeamModel st)\<rparr>)))"

definition updateOwner_logged ::
  "store \<Rightarrow> jwt \<Rightarrow> ObjectId \<Rightarrow> ObjectId \<Rightarrow> ITeamModel outcome" where
  "updateOwner_logged st token teamID newOwnerID =
     (case verifyJWT token of
        Inl e \<Rightarrow> (Inl e, st)
      | Inr decodedJWT \<Rightarrow>
          (case getTeam_logged st token teamID of
             Inl e \<Rightarrow> (Inl e, st)
           | Inr tm \<Rightarrow>
               (case findById user_id (UserModel st) (jwt_id decodedJWT) of
                  None \<Rightarrow> (Inl TypeError, st)
                | Some oldOwner \<Rightarrow>
                    (case findById user_id (UserModel st) newOwnerID of
                       None \<Rightarrow> (Inl TypeError, st)
                     | Some newOwner \<Rightarrow>
                         if \<not> jwt_isAdmin decodedJWT \<and> \<not> inTeam tm newOwner
                         then (Inl (BadRequestError (withMessage
                                 ''New owner must be in team before transfer of ownership'')), st)
                         else if \<not> jwt_isAdmin decodedJWT \<and> \<not> isOwner tm oldOwner
                         then (Inl (BadRequestError
                                 \<lparr>errorCode = Some ''error_user_not_owner'',
                                  errorMessage = Some ''Cannot transfer ownership'',
                                  details = None\<rparr>), st)
                         else (let tm' = tm\<lparr>owner := Some (user_id newOwner)\<rparr>
                               in (Inr tm',
                                   st\<lparr>TeamModel := save team_id tm' (TeamModel st)\<rparr>))))))"

definition createInvite_logged ::
  "store \<Rightarrow> jwt \<Rightarrow> ObjectId \<Rightarrow> InviteOptions \<Rightarrow> string \<Rightarrow> Date \<Rightarrow> ITeamInviteModel outcome" where
  "createInvite_logged st token teamID inviteOptions randomCode now =
     (case verifyJWT token of
        Inl e \<Rightarrow> (Inl e, st)
      | Inr decodedJWT \<Rightarrow>
          (case findById user_id (UserModel st) (jwt_id decodedJWT) of
             None \<Rightarrow> (Inl TypeError, st)
           | Some u \<Rightarrow>
               (case findById team_id (TeamModel st) teamID of
                  None \<Rightarrow> (Inl TypeError, st)
                | Some tm \<Rightarrow>
                    if \<not> isAdmin u \<and> \<not> isOwner tm u
                    then (Inl (BadRequestError
                            \<lparr>errorCode = Some ''error_invalid_permissions'',
                             errorMessage = Some ''Only the team owner can create invites'',
                             details = None\<rparr>), st)
                    else (let invite =
                                \<lparr>invite_id = nextId st, team = team_id tm,
                                 inviteCode = randomCode,
                                 expiry = opt_expiry inviteOptions,
                                 maxUses = (if truthyNumber (opt_maxUses inviteOptions)
                                            then opt_maxUses inviteOptions else None),
                                 createdAt = now, createdByUser = user_id u, uses = []\<rparr>;
                              tm' = tm\<lparr>invites := invites tm @ [invite_id invite]\<rparr>
                          in (Inr invite,
                              st\<lparr>TeamInviteModel := TeamInviteModel st @ [invite],
                                 TeamModel := save team_id tm' (TeamModel st),
                                 nextId := Suc (nextId st)\<rparr>)))))"

definition getInvite_logged ::
  "(ITeamInviteModel \<Rightarrow> 'b) \<Rightarrow> Date \<Rightarrow> store \<Rightarrow> jwt option \<Rightarrow> string \<Rightarrow> 'b inviteView outcome" where
  "getInvite_logged basicInvite now st token inviteID =
     (let invite = findOne (TeamInviteModel st) inviteID
      in (case (case token of
                  None \<Rightarrow> Inr None
                | Some j \<Rightarrow>
                    (case verifyJWT j of
                       Inl e \<Rightarrow> Inl e
                     | Inr decodedJWT \<Rightarrow>
                         Inr (findById user_id (UserModel st) (jwt_id decodedJWT)))) of
            Inl e \<Rightarrow> (Inl e, st)
          | Inr user \<Rightarrow>
              if (case user of None \<Rightarrow> False | Some u \<Rightarrow> isAdmin u)
              then (Inr (FullInvite invite), st)
              else (case invite of
                      None \<Rightarrow> (Inl TypeError, st)
                    | Some iv \<Rightarrow>
                        if geUndefined (int (length (uses iv))) (maxUses iv)
                           \<or> geUndefined now (expiry iv)
                        then (Inl (BadRequestError (withCode ''error_expired_invite'')), st)
                        else (Inr (BasicInvite (basicInvite iv)), st))))"

text \<open>
  In the next four operations the variant starts its two lookups with
  \<^verbatim>\<open>Promise.all([...]).then(...)\<close> and does not await them: the variables that the
  callback would assign are still \<^verbatim>\<open>undefined\<close> when the checks that follow read
  them. So \<^verbatim>\<open>!invite\<close> and \<^verbatim>\<open>!team\<close> hold and \<^verbatim>\<open>user.isAdmin\<close> is the
  \<^verbatim>\<open>TypeError\<close>, whatever the store holds.
\<close>

definition deleteInvite_logged :: "store \<Rightarrow> jwt \<Rightarrow> string \<Rightarrow> unit outcome" where
  "deleteInvite_logged st token inviteID =
     (case verifyJWT token of
        Inl e \<Rightarrow> (Inl e, st)
      | Inr decodedJWT \<Rightarrow> (Inl (NotFoundError (withMessage ''Invite not found'')), st))"

definition useInvite_logged :: "store \<Rightarrow> jwt \<Rightarrow> string \<Rightarrow> ITeamModel outcome" where
  "useInvite_logged st token inviteID =
     (case verifyJWT token of
        Inl e \<Rightarrow> (Inl e, st)
      | Inr decodedJWT \<Rightarrow> (Inl (NotFoundError (withMessage ''Invite not found'')), st))"

definition leaveTeam_logged :: "store \<Rightarrow> jwt \<Rightarrow> ObjectId \<Rightarrow> unit outcome" where
  "leaveTeam_logged st token teamID =
     (case verifyJWT token of
        Inl e \<Rightarrow> (Inl e, st)
      | Inr decodedJWT \<Rightarrow> (Inl (NotFoundError (withCode ''error_team_not_found'')), st))"

definition deleteTeam_logged :: "store \<Rightarrow> jwt \<Rightarrow> ObjectId \<Rightarrow> unit outcome" where
  "deleteTeam_logged st token teamID =
     (case verifyJWT token of
        Inl e \<Rightarrow> (Inl e, st)
      | Inr decodedJWT \<Rightarrow> (Inl TypeError, st))"

section \<open>A scenario\<close>

text \<open>
  Three ordinary users and an administrator, no team yet. Alice creates the team
  "Alpha" and an invite to it that may be used once; Bob creates the team "Beta" and
  an invite to it; Carol redeems both invites; Carol then leaves the team "Alpha".
  All the names of the scenario are ASCII strings, on which
  \<^verbatim>\<open>String.prototype.toLowerCase\<close> replaces the letters A to Z by a to z and keeps
  every other character: \<open>asciiLowerCase\<close> is that function, and is what the scenario
  passes to \<^verbatim>\<open>createTeam\<close>.
\<close>

definition lowerChar :: "char \<Rightarrow> char" where
  "lowerChar c =
     (let n = (of_char c :: nat) in if 65 \<le> n \<and> n \<le> 90 then char_of (n + 32) else c)"

definition asciiLowerCase :: "string \<Rightarrow> string" where
  "asciiLowerCase s = map lowerChar s"

definition alice :: jwt where "alice = Signed (JWTData 1 False)"
definition bob :: jwt where "bob = Signed (JWTData 2 False)"
definition carol :: jwt where "carol = Signed (JWTData 3 False)"
definition admin :: jwt where "admin = Signed (JWTData 9 True)"

definition store0 :: store where
  "store0 =
     \<lparr>UserModel =
        [\<lparr>user_id = 1, isAdmin = False, teams = []\<rparr>,
         \<lparr>user_id = 2, isAdmin = False, teams = []\<rparr>,
         \<lparr>user_id = 3, isAdmin = False, teams = []\<rparr>,
         \<lparr>user_id = 9, isAdmin = True, teams = []\<rparr>],
      TeamModel = [], TeamInviteModel = [], nextId = 100\<rparr>"

definition store1 :: store where
  "store1 = snd (createTeam asciiLowerCase store0 alice ''Alpha'')"

definition store2 :: store where
  "store2 = snd (createInvite store1 alice 100
                   \<lparr>opt_expiry = None, opt_maxUses = Some 1\<rparr> ''c0ffee'' 1000)"

definition store3 :: store where
  "store3 = snd (createTeam asciiLowerCase store2 bob ''Beta'')"

definition store4 :: store where
  "store4 = snd (createInvite store3 bob 102
                   \<lparr>opt_expiry = Some 5000, opt_maxUses = None\<rparr> ''decade'' 1000)"

definition store5 :: store where
  "store5 = snd (useInvite store4 carol ''c0ffee'')"

definition store6 :: store where
  "store6 = snd (useInvite store5 carol ''decade'')"

definition store7 :: store where
  "store7 = snd (leaveTeam store6 carol 100)"

section \<open>Facts about the helpers\<close>

lemma findById_key: "findById key docs i = Some d \<Longrightarrow> key d = i"
  unfolding findById_def by (induction docs) (auto split: if_splits)

lemma findById_save:
  "findById key docs (key x) = Some y \<Longrightarrow> findById key (save key x docs) (key x) = Some x"
  unfolding findById_def save_def by (induction docs) (auto split: if_splits)

lemma indexOf_absent: "y \<notin> set xs \<Longrightarrow> indexOf xs y = -1"
  by (induction xs) (auto simp: Let_def)

lemma indexOf_present:
  "y \<in> set xs \<Longrightarrow> 0 \<le> indexOf xs y \<and> indexOf xs y < int (length xs) \<and> xs ! nat (indexOf xs y) = y"
proof (induction xs)
  case Nil
  then show ?case by simp
next
  case (Cons x xs)
  show ?case
  proof (cases "x = y")
    case True
    then show ?thesis by simp
  next
    case False
    with Cons.prems have "y \<in> set xs" by simp
    from Cons.IH [OF this] False show ?thesis
      by (simp add: Let_def nat_add_distrib)
  qed
qed

lemma splice_present:
  assumes "y \<in> set xs"
  shows "fst (spliceArray xs (indexOf xs y) 1) = [y]"
proof -
  from indexOf_present [OF assms] obtain n where
    n: "indexOf xs y = int n" "n < length xs" "xs ! n = y"
    by (metis nat_int zero_le_imp_eq_int of_nat_less_iff)
  then show ?thesis
    by (simp add: spliceArray_def Let_def take_Suc_conv_app_nth hd_drop_conv_nth
          take_Suc)
qed

lemma splice_absent:
  assumes "y \<notin> set xs"
  shows "fst (spliceArray xs (indexOf xs y) 1) = (if xs = [] then [] else [last xs])"
proof (cases "xs = []")
  case True
  then show ?thesis by (simp add: spliceArray_def)
next
  case False
  then obtain ys z where xs: "xs = ys @ [z]"
    by (metis rev_exhaust)
  with assms show ?thesis
    by (simp add: spliceArray_def indexOf_absent Let_def)
qed

section \<open>The scenario, evaluated\<close>

lemma lower_names:
  "asciiLowerCase ''Alpha'' = ''alpha''" "asciiLowerCase ''Beta'' = ''beta''"
  "asciiLowerCase ''ALPHA'' = ''alpha''" "asciiLowerCase ''alpha'' = ''alpha''"
  by code_simp+

lemma store1_eval:
  "store1 =
     \<lparr>UserModel =
        [\<lparr>user_id = 1, isAdmin = False, teams = [100]\<rparr>,
         \<lparr>user_id = 2, isAdmin = False, teams = []\<rparr>,
         \<lparr>user_id = 3, isAdmin = False, teams = []\<rparr>,
         \<lparr>user_id = 9, isAdmin = True, teams = []\<rparr>],
      TeamModel =
        [\<lparr>team_id = 100, name = ''alpha'', owner = Some 1, members = [],
          socials = \<lparr>twitter = None, website = None\<rparr>, invites = []\<rparr>],
      TeamInviteModel = [], nextId = 101\<rparr>"
  by code_simp

lemma store4_eval:
  "store4 =
     \<lparr>UserModel =
        [\<lparr>user_id = 1, isAdmin = False, teams = [100]\<rparr>,
         \<lparr>user_id = 2, isAdmin = False, teams = [102]\<rparr>,
         \<lparr>user_id = 3, isAdmin = False, teams = []\<rparr>,
         \<lparr>user_id = 9, isAdmin = True, teams = []\<rparr>],
      TeamModel =
        [\<lparr>team_id = 100, name = ''alpha'', owner = Some 1, members = [],
          socials = \<lparr>twitter = None, website = None\<rparr>, invites = [101]\<rparr>,
         \<lparr>team_id = 102, name = ''beta'', owner = Some 2, members = [],
          socials = \<lparr>twitter = None, website = None\<rparr>, invites = [103]\<rparr>],
      TeamInviteModel =
        [\<lparr>invite_id = 101, team = 100, inviteCode = ''c0ffee'', expiry = None,
          maxUses = Some 1, createdAt = 1000, createdByUser = 1, uses = []\<rparr>,
         \<lparr>invite_id = 103, team = 102, inviteCode = ''decade'', expiry = Some 5000,
          maxUses = None, createdAt = 1000, createdByUser = 2, uses = []\<rparr>],
      nextId = 104\<rparr>"
  by code_simp

lemma store5_eval:
  "store5 =
     \<lparr>UserModel =
        [\<lparr>user_id = 1, isAdmin = False, teams = [100]\<rparr>,
         \<lparr>user_id = 2, isAdmin = False, teams = [102]\<rparr>,
         \<lparr>user_id = 3, isAdmin = False, teams = [100]\<rparr>,
         \<lparr>user_id = 9, isAdmin = True, teams = []\<rparr>],
      TeamModel =
        [\<lparr>team_id = 100, name = ''alpha'', owner = Some 1, members = [3],
          socials = \<lparr>twitter = None, website = None\<rparr>, invites = [101]\<rparr>,
         \<lparr>team_id = 102, name = ''beta'', owner = Some 2, members = [],
          socials = \<lparr>twitter = None, website = None\<rparr>, invites = [103]\<rparr>],
      TeamInviteModel =
        [\<lparr>invite_id = 101, team = 100, inviteCode = ''c0ffee'', expiry = None,
          maxUses = Some 1, createdAt = 1000, createdByUser = 1, uses = [3]\<rparr>,
         \<lparr>invite_id = 103, team = 102, inviteCode = ''decade'', expiry = Some 5000,
          maxUses = None, createdAt = 1000, createdByUser = 2, uses = []\<rparr>],
      nextId = 104\<rparr>"
  by code_simp

lemma store6_eval:
  "store6 =
     \<lparr>UserModel =
        [\<lparr>user_id = 1, isAdmin = False, teams = [100]\<rparr>,
         \<lparr>user_id = 2, isAdmin = False, teams = [102]\<rparr>,
         \<lparr>user_id = 3, isAdmin = False, teams = [100, 102]\<rparr>,
         \<lparr>user_id = 9, isAdmin = True, teams = []\<rparr>],
      TeamModel =
        [\<lparr>team_id = 100, name = ''alpha'', owner = Some 1, members = [3],
          socials = \<lparr>twitter = None, website = None\<rparr>, invites = [101]\<rparr>,
         \<lparr>team_id = 102, name = ''beta'', owner = Some 2, members = [3],
          socials = \<lparr>twitter = None, website = None\<rparr>, invites = [103]\<rparr>],
      TeamInviteModel =
        [\<lparr>invite_id = 101, team = 100, inviteCode = ''c0ffee'', expiry = None,
          maxUses = Some 1, createdAt = 1000, createdByUser = 1, uses = [3]\<rparr>,
         \<lparr>invite_id = 103, team = 102, inviteCode = ''decade'', expiry = Some 5000,
          maxUses = None, createdAt = 1000, createdByUser = 2, uses = [3]\<rparr>],
      nextId = 104\<rparr>"
  by code_simp

lemma store7_eval:
  "store7 =
     \<lparr>UserModel =
        [\<lparr>user_id = 1, isAdmin = False, teams = [100]\<rparr>,
         \<lparr>user_id = 2, isAdmin = False, teams = [102]\<rparr>,
         \<lparr>user_id = 3, isAdmin = False, teams = [100]\<rparr>,
         \<lparr>user_id = 9, isAdmin = True, teams = []\<rparr>],
      TeamModel =
        [\<lparr>team_id = 100, name = ''alpha'', owner = Some 1, members = [3],
          socials = \<lparr>twitter = None, website = None\<rparr>, invites = [101]\<rparr>,
         \<lparr>team_id = 102, name = ''beta'', owner = Some 2, members = [3],
          socials = \<lparr>twitter = None, website = None\<rparr>, invites = [103]\<rparr>],
      TeamInviteModel =
        [\<lparr>invite_id = 101, team = 100, inviteCode = ''c0ffee'', expiry = None,
          maxUses = Some 1, createdAt = 1000, createdByUser = 1, uses = [3]\<rparr>,
         \<lparr>invite_id = 103, team = 102, inviteCode = ''decade'', expiry = Some 5000,
          maxUses = None, createdAt = 1000, createdByUser = 2, uses = [3]\<rparr>],
      nextId = 104\<rparr>"
  by code_simp

section \<open>createTeam and existing names\<close>

text \<open>
  Claim C8. For every requested team name whose lower-case form is the name of a team
  in the store, \<^verbatim>\<open>createTeam\<close> fails with the \<^verbatim>\<open>ConflictError\<close>
  \<^verbatim>\<open>error_team_exists\<close> and leaves the store as it was (no team is created), whatever the
  casing of the requested name and whatever the token: the lookup comes first. This
  holds for every lower-casing function, so for the one of the library.
\<close>

theorem createTeam_existing_name:
  assumes "tm \<in> set (TeamModel st)" and "name tm = toLowerCase teamName"
  shows "createTeam toLowerCase st token teamName =
           (Inl (ConflictError (withCode ''error_team_exists'')), st)"
proof -
  from assms have "find (\<lambda>t. name t = toLowerCase teamName) (TeamModel st) \<noteq> None"
    by (auto simp: find_None_iff)
  then show ?thesis
    by (simp add: createTeam_def)
qed

theorem createTeam_existing_name_witness:
  "createTeam asciiLowerCase store1 bob ''ALPHA'' =
     (Inl (ConflictError (withCode ''error_team_exists'')), store1)
   \<and> createTeam asciiLowerCase store1 alice ''Alpha'' =
     (Inl (ConflictError (withCode ''error_team_exists'')), store1)"
proof -
  let ?tm = "\<lparr>team_id = 100, name = ''alpha'', owner = Some 1, members = [],
               socials = \<lparr>twitter = None, website = None\<rparr>, invites = []\<rparr>"
  have m: "?tm \<in> set (TeamModel store1)"
    by (simp add: store1_eval)
  have n1: "name ?tm = asciiLowerCase ''ALPHA''"
    and n2: "name ?tm = asciiLowerCase ''Alpha''"
    by (simp_all add: lower_names)
  show ?thesis
    using createTeam_existing_name
        [where toLowerCase = asciiLowerCase and token = bob, OF m n1]
      createTeam_existing_name
        [where toLowerCase = asciiLowerCase and token = alice, OF m n2]
    by simp
qed

section \<open>Tokens that do not verify\<close>

text \<open>
  A token that \<^verbatim>\<open>jsonwebtoken.verify\<close> rejects makes every operation but
  \<^verbatim>\<open>createTeam\<close> and \<^verbatim>\<open>updateOwner\<close> fail with the "Invalid JWT" error, whatever
  the store holds, and the store is left as it was.
\<close>

lemma invalid_token_rejected:
  assumes "verify token = None"
  shows "getTeam st token teamID = Inl invalidJWT"
    and "updateTeam st token teamID newDetails = (Inl invalidJWT, st)"
    and "createInvite st token teamID inviteOptions randomCode now = (Inl invalidJWT, st)"
    and "getInvite basicInvite now st (Some token) inviteID = (Inl invalidJWT, st)"
    and "deleteInvite st token inviteID = (Inl invalidJWT, st)"
    and "useInvite st token inviteID = (Inl invalidJWT, st)"
    and "leaveTeam st token teamID = (Inl invalidJWT, st)"
    and "deleteTeam st token teamID = (Inl invalidJWT, st)"
  using assms
  by (simp_all add: getTeam_def updateTeam_def createInvite_def getInvite_def
        deleteInvite_def useInvite_def leaveTeam_def deleteTeam_def)

text \<open>
  Claim C5. The claim is that every operation fails with the authentication error on an
  invalid token, before any store access, and names \<^verbatim>\<open>createTeam\<close> on an existing
  team name as its example. \<^verbatim>\<open>createTeam\<close> asks the store for the name first: in the
  scenario, where the team "alpha" exists, a malformed token and a token with a bad
  signature both get the \<^verbatim>\<open>ConflictError\<close> \<^verbatim>\<open>error_team_exists\<close>, which is not the
  authentication error.
\<close>

theorem createTeam_conflict_before_token:
  "createTeam asciiLowerCase store1 Malformed ''Alpha'' =
     (Inl (ConflictError (withCode ''error_team_exists'')), store1)
   \<and> createTeam asciiLowerCase store1 (Unverifiable (JWTData 2 False)) ''alpha'' =
     (Inl (ConflictError (withCode ''error_team_exists'')), store1)
   \<and> ConflictError (withCode ''error_team_exists'') \<noteq> invalidJWT"
  by code_simp

section \<open>getInvite\<close>

text \<open>
  Claim C6. Let the invite code name an invite. If the caller is anonymous (no token) or
  presents a valid token of a user who is not an administrator (or of no user at all),
  and the invite has a \<^verbatim>\<open>maxUses\<close> that its use list has reached or an expiry that
  the current date has reached, then \<^verbatim>\<open>getInvite\<close> fails with the
  \<^verbatim>\<open>BadRequestError\<close> \<^verbatim>\<open>error_expired_invite\<close>: the outcome is the error alone and
  carries no field of the invite. If the caller presents a valid token of an
  administrator, \<^verbatim>\<open>getInvite\<close> returns the full invite document, exhausted or
  expired or not.
\<close>

theorem getInvite_expired_or_admin:
  assumes found: "findOne (TeamInviteModel st) inviteID = Some iv"
  shows "((token = None
            \<or> (\<exists>d. token = Some (Signed d)
                  \<and> (case findById user_id (UserModel st) (jwt_id d) of
                        None \<Rightarrow> True | Some u \<Rightarrow> \<not> isAdmin u)))
          \<and> ((\<exists>m. maxUses iv = Some m \<and> m \<le> int (length (uses iv)))
               \<or> (\<exists>e. expiry iv = Some e \<and> e \<le> now))
          \<longrightarrow> getInvite basicInvite now st token inviteID =
                (Inl (BadRequestError (withCode ''error_expired_invite'')), st))
       \<and> ((\<exists>d u. token = Some (Signed d)
                 \<and> findById user_id (UserModel st) (jwt_id d) = Some u \<and> isAdmin u)
          \<longrightarrow> getInvite basicInvite now st token inviteID =
                (Inr (FullInvite (Some iv)), st))"
proof (intro conjI impI)
  assume h: "(token = None
            \<or> (\<exists>d. token = Some (Signed d)
                  \<and> (case findById user_id (UserModel st) (jwt_id d) of
                        None \<Rightarrow> True | Some u \<Rightarrow> \<not> isAdmin u)))
          \<and> ((\<exists>m. maxUses iv = Some m \<and> m \<le> int (length (uses iv)))
               \<or> (\<exists>e. expiry iv = Some e \<and> e \<le> now))"
  then have gone: "geUndefined (int (length (uses iv))) (maxUses iv) \<or> geUndefined now (expiry iv)"
    by auto
  from h have "token = None
            \<or> (\<exists>d. token = Some (Signed d)
                  \<and> (case findById user_id (UserModel st) (jwt_id d) of
                        None \<Rightarrow> True | Some u \<Rightarrow> \<not> isAdmin u))"
    by simp
  then show "getInvite basicInvite now st token inviteID =
                (Inl (BadRequestError (withCode ''error_expired_invite'')), st)"
  proof
    assume "token = None"
    with found gone show ?thesis
      by (simp add: getInvite_def)
  next
    assume "\<exists>d. token = Some (Signed d)
                  \<and> (case findById user_id (UserModel st) (jwt_id d) of
                        None \<Rightarrow> True | Some u \<Rightarrow> \<not> isAdmin u)"
    then obtain d where "token = Some (Signed d)"
      and "case findById user_id (UserModel st) (jwt_id d) of
             None \<Rightarrow> True | Some u \<Rightarrow> \<not> isAdmin u"
      by blast
    with found gone show ?thesis
      by (simp add: getInvite_def split: option.splits)
  qed
next
  assume "\<exists>d u. token = Some (Signed d)
                 \<and> findById user_id (UserModel st) (jwt_id d) = Some u \<and> isAdmin u"
  then obtain d u where "token = Some (Signed d)"
    and "findById user_id (UserModel st) (jwt_id d) = Some u" and "isAdmin u"
    by blast
  with found show "getInvite basicInvite now st token inviteID =
                (Inr (FullInvite (Some iv)), st)"
    by (simp add: getInvite_def)
qed

theorem getInvite_expired_or_admin_witness:
  "getInvite (\<lambda>i. inviteCode i) 2000 store6 (Some bob) ''c0ffee'' =
     (Inl (BadRequestError (withCode ''error_expired_invite'')), store6)
   \<and> getInvite (\<lambda>i. inviteCode i) 6000 store6 None ''decade'' =
     (Inl (BadRequestError (withCode ''error_expired_invite'')), store6)
   \<and> getInvite (\<lambda>i. inviteCode i) 2000 store6 (Some admin) ''c0ffee'' =
     (Inr (FullInvite (Some
        \<lparr>invite_id = 101, team = 100, inviteCode = ''c0ffee'', expiry = None,
          maxUses = Some 1, createdAt = 1000, createdByUser = 1, uses = [3]\<rparr>)), store6)"
proof -
  have c: "findOne (TeamInviteModel store6) ''c0ffee'' = Some
        \<lparr>invite_id = 101, team = 100, inviteCode = ''c0ffee'', expiry = None,
          maxUses = Some 1, createdAt = 1000, createdByUser = 1, uses = [3]\<rparr>"
    by (simp add: store6_eval findOne_def)
  have d: "findOne (TeamInviteModel store6) ''decade'' = Some
        \<lparr>invite_id = 103, team = 102, inviteCode = ''decade'', expiry = Some 5000,
          maxUses = None, createdAt = 1000, createdByUser = 2, uses = [3]\<rparr>"
    by (simp add: store6_eval findOne_def)
  have u2: "findById user_id (UserModel store6) 2 = Some \<lparr>user_id = 2, isAdmin = False, teams = [102]\<rparr>"
    and u9: "findById user_id (UserModel store6) 9 = Some \<lparr>user_id = 9, isAdmin = True, teams = []\<rparr>"
    by (simp_all add: store6_eval findById_def)
  show ?thesis
    using getInvite_expired_or_admin [OF c, of "Some bob" 2000 "\<lambda>i. inviteCode i"]
      getInvite_expired_or_admin [OF d, of None 6000 "\<lambda>i. inviteCode i"]
      getInvite_expired_or_admin [OF c, of "Some admin" 2000 "\<lambda>i. inviteCode i"]
    by (simp add: bob_def admin_def u2 u9)
qed

section \<open>updateOwner\<close>

text \<open>
  Claim C7. Let the token not carry the administrator flag. Then \<^verbatim>\<open>updateOwner\<close>
  succeeds only if the token verifies, the team and both users exist, the proposed new
  owner is in the team (\<^verbatim>\<open>inTeam\<close>) and the caller is the team's owner
  (\<^verbatim>\<open>isOwner\<close>); and whenever these conditions do not all hold, an error is raised
  and the store, so the team's owner too, is unchanged.
\<close>

theorem updateOwner_non_admin:
  assumes nonadmin: "\<And>d. decode token = Some d \<Longrightarrow> \<not> jwt_isAdmin d"
  shows "(\<forall>tm'. fst (updateOwner st token teamID newOwnerID) = Inr tm' \<longrightarrow>
            (\<exists>d tm caller newOwner.
               verify token = Some d
               \<and> findById team_id (TeamModel st) teamID = Some tm
               \<and> findById user_id (UserModel st) (jwt_id d) = Some caller
               \<and> findById user_id (UserModel st) newOwnerID = Some newOwner
               \<and> inTeam tm newOwner \<and> isOwner tm caller))
       \<and> (\<not> (\<exists>d tm caller newOwner.
               verify token = Some d
               \<and> findById team_id (TeamModel st) teamID = Some tm
               \<and> findById user_id (UserModel st) (jwt_id d) = Some caller
               \<and> findById user_id (UserModel st) newOwnerID = Some newOwner
               \<and> inTeam tm newOwner \<and> isOwner tm caller) \<longrightarrow>
            (\<exists>e. updateOwner st token teamID newOwnerID = (Inl e, st)))"
proof (cases token)
  case Malformed
  then show ?thesis by (simp add: updateOwner_def)
next
  case (Unverifiable d)
  then show ?thesis by (simp add: updateOwner_def getTeam_def)
next
  case (Signed d)
  with nonadmin have na: "\<not> jwt_isAdmin d" by simp
  show ?thesis
    using Signed na
    by (auto simp: updateOwner_def getTeam_def Let_def split: option.splits if_splits)
qed

theorem updateOwner_non_admin_witness:
  "(\<exists>e. updateOwner store6 carol 100 3 = (Inl e, store6))
   \<and> (\<exists>e. updateOwner store6 alice 100 2 = (Inl e, store6))
   \<and> fst (updateOwner store6 alice 100 3) =
       Inr \<lparr>team_id = 100, name = ''alpha'', owner = Some 3, members = [3],
            socials = \<lparr>twitter = None, website = None\<rparr>, invites = [101]\<rparr>"
proof -
  have nc: "\<And>d. decode carol = Some d \<Longrightarrow> \<not> jwt_isAdmin d"
    and na: "\<And>d. decode alice = Some d \<Longrightarrow> \<not> jwt_isAdmin d"
    by (auto simp: carol_def alice_def)
  have t: "findById team_id (TeamModel store6) 100 =
             Some \<lparr>team_id = 100, name = ''alpha'', owner = Some 1, members = [3],
                   socials = \<lparr>twitter = None, website = None\<rparr>, invites = [101]\<rparr>"
    and u1: "findById user_id (UserModel store6) 1 =
             Some \<lparr>user_id = 1, isAdmin = False, teams = [100]\<rparr>"
    and u2: "findById user_id (UserModel store6) 2 =
             Some \<lparr>user_id = 2, isAdmin = False, teams = [102]\<rparr>"
    and u3: "findById user_id (UserModel store6) 3 =
             Some \<lparr>user_id = 3, isAdmin = False, teams = [100, 102]\<rparr>"
    by (simp_all add: store6_eval findById_def)
  have notOwner: "\<exists>e. updateOwner store6 carol 100 3 = (Inl e, store6)"
    using updateOwner_non_admin [of carol store6 100 3, OF nc]
    by (simp add: carol_def t u3 isOwner_def)
  have notMember: "\<exists>e. updateOwner store6 alice 100 2 = (Inl e, store6)"
    using updateOwner_non_admin [of alice store6 100 2, OF na]
    by (simp add: alice_def t u1 u2 isOwner_def inTeam_def)
  have "fst (updateOwner store6 alice 100 3) =
       Inr \<lparr>team_id = 100, name = ''alpha'', owner = Some 3, members = [3],
            socials = \<lparr>twitter = None, website = None\<rparr>, invites = [101]\<rparr>"
    by code_simp
  with notOwner notMember show ?thesis by simp
qed

section \<open>useInvite and the use limit\<close>

text \<open>
  \<^verbatim>\<open>useInvite\<close> succeeds whenever the token verifies and the invite, its team and the
  caller exist: neither \<^verbatim>\<open>maxUses\<close> nor \<^verbatim>\<open>expiry\<close> is read, and the caller is
  appended to the use list.
\<close>

lemma useInvite_whatever_the_limit:
  assumes "verify token = Some d"
    and "findOne (TeamInviteModel st) inviteID = Some iv"
    and "findById team_id (TeamModel st) (team iv) = Some tm"
    and "findById user_id (UserModel st) (jwt_id d) = Some u"
  shows "fst (useInvite st token inviteID) = Inr (tm\<lparr>members := members tm @ [user_id u]\<rparr>)"
    and "TeamInviteModel (snd (useInvite st token inviteID)) =
           save invite_id (iv\<lparr>uses := uses iv @ [user_id u]\<rparr>) (TeamInviteModel st)"
  using assms by (simp_all add: useInvite_def Let_def)

text \<open>
  Claim C1. The claim is that the use list of an invite never grows beyond its
  \<^verbatim>\<open>maxUses\<close>. \<^verbatim>\<open>getInvite\<close> compares the two, \<^verbatim>\<open>useInvite\<close> does not: in the
  scenario the invite "c0ffee" has \<^verbatim>\<open>maxUses\<close> 1 and Carol has used it; Bob's
  \<^verbatim>\<open>useInvite\<close> succeeds all the same, and the stored invite then has two uses.
\<close>

theorem useInvite_beyond_maxUses:
  "map (\<lambda>i. (maxUses i, uses i)) (TeamInviteModel store5) = [(Some 1, [3]), (None, [])]
   \<and> fst (useInvite store5 bob ''c0ffee'') =
       Inr \<lparr>team_id = 100, name = ''alpha'', owner = Some 1, members = [3, 2],
            socials = \<lparr>twitter = None, website = None\<rparr>, invites = [101]\<rparr>
   \<and> map (\<lambda>i. (maxUses i, uses i)) (TeamInviteModel (snd (useInvite store5 bob ''c0ffee''))) =
       [(Some 1, [3, 2]), (None, [])]"
  by code_simp

section \<open>deleteTeam and leaveTeam: what splice returns\<close>

text \<open>
  Claim C2. The claim is that after a successful \<^verbatim>\<open>deleteTeam\<close> no user references
  the deleted team. The code assigns the array that \<^verbatim>\<open>splice\<close> returns, the removed
  entries, to each team list. When Alice deletes her team 100 right after creating it,
  the team document is gone and her team list is still \<open>[100]\<close>. When she deletes it
  after Carol has joined, the team document is gone, and both Alice and the member
  Carol have the team list \<open>[100]\<close>; Carol's membership of team 102 is lost.
\<close>

theorem deleteTeam_leaves_references:
  "fst (deleteTeam store1 alice 100) = Inr ()
   \<and> TeamModel (snd (deleteTeam store1 alice 100)) = []
   \<and> map (\<lambda>u. (user_id u, teams u)) (UserModel (snd (deleteTeam store1 alice 100))) =
       [(1, [100]), (2, []), (3, []), (9, [])]
   \<and> fst (deleteTeam store6 alice 100) = Inr ()
   \<and> findById team_id (TeamModel (snd (deleteTeam store6 alice 100))) 100 = None
   \<and> map (\<lambda>u. (user_id u, teams u)) (UserModel (snd (deleteTeam store6 alice 100))) =
       [(1, [100]), (2, [102]), (3, [100]), (9, [])]"
  by code_simp

text \<open>
  What \<^verbatim>\<open>leaveTeam\<close> stores. Whenever it succeeds, the caller is a member who is not
  the owner of an existing team; afterwards the team's stored member list is the
  one-element list of the caller, who therefore has not left, and the caller's stored
  team list is the one-element list of the team if their team list contained that
  team, and otherwise the one-element list of the last entry of their previous team
  list (the empty list if that was empty): the array that \<^verbatim>\<open>splice\<close> returns, the
  removed entries, is assigned back, as in \<^verbatim>\<open>deleteTeam\<close>.
\<close>

lemma leaveTeam_stores_removed:
  assumes ok: "fst (leaveTeam st token teamID) = Inr ()"
  shows "\<exists>d u tm.
           verify token = Some d
           \<and> findById user_id (UserModel st) (jwt_id d) = Some u
           \<and> findById team_id (TeamModel st) teamID = Some tm
           \<and> \<not> isOwner tm u \<and> user_id u \<in> set (members tm)
           \<and> findById team_id (TeamModel (snd (leaveTeam st token teamID))) teamID =
               Some (tm\<lparr>members := [user_id u]\<rparr>)
           \<and> findById user_id (UserModel (snd (leaveTeam st token teamID))) (jwt_id d) =
               Some (u\<lparr>teams := (if teamID \<in> set (teams u) then [teamID]
                                   else if teams u = [] then [] else [last (teams u)])\<rparr>)"
proof -
  from ok obtain d where d: "verify token = Some d"
    by (auto simp: leaveTeam_def split: option.splits)
  from ok d obtain tm where tm: "findById team_id (TeamModel st) teamID = Some tm"
    by (auto simp: leaveTeam_def split: option.splits)
  from ok d tm obtain u where u: "findById user_id (UserModel st) (jwt_id d) = Some u"
    by (auto simp: leaveTeam_def split: option.splits)
  from ok d tm u have no: "\<not> isOwner tm u" and it: "inTeam tm u"
    by (auto simp: leaveTeam_def split: if_splits)
  then have mem: "user_id u \<in> set (members tm)"
    by (simp add: inTeam_def)
  have kt: "team_id tm = teamID" and ku: "user_id u = jwt_id d"
    using tm u by (auto dest: findById_key)
  let ?tm' = "tm\<lparr>members := [user_id u]\<rparr>"
  let ?ts = "if teamID \<in> set (teams u) then [teamID]
             else if teams u = [] then [] else [last (teams u)]"
  let ?u' = "u\<lparr>teams := ?ts\<rparr>"
  have sp: "fst (spliceArray (teams u) (indexOf (teams u) teamID) 1) = ?ts"
    by (simp add: splice_present splice_absent)
  have res: "snd (leaveTeam st token teamID) =
               st\<lparr>TeamModel := save team_id ?tm' (TeamModel st),
                  UserModel := save user_id ?u' (UserModel st)\<rparr>"
    using d tm u no it mem sp kt
    by (simp add: leaveTeam_def Let_def splice_present)
  have ft: "findById team_id (save team_id ?tm' (TeamModel st)) (team_id ?tm') = Some ?tm'"
    by (rule findById_save [where y = tm]) (simp add: tm kt)
  have fu: "findById user_id (save user_id ?u' (UserModel st)) (user_id ?u') = Some ?u'"
    by (rule findById_save [where y = u]) (simp add: u ku)
  from ft fu show ?thesis
    using d tm u no mem res kt ku by simp
qed

lemma leaveTeam_stores_removed_example:
  "findById team_id (TeamModel (snd (leaveTeam store6 carol 100))) 100 =
     Some \<lparr>team_id = 100, name = ''alpha'', owner = Some 1, members = [3],
           socials = \<lparr>twitter = None, website = None\<rparr>, invites = [101]\<rparr>
   \<and> findById user_id (UserModel (snd (leaveTeam store6 carol 100))) 3 =
     Some \<lparr>user_id = 3, isAdmin = False, teams = [100]\<rparr>"
proof -
  have ok: "fst (leaveTeam store6 carol 100) = Inr ()"
    by code_simp
  have t: "findById team_id (TeamModel store6) 100 =
             Some \<lparr>team_id = 100, name = ''alpha'', owner = Some 1, members = [3],
                   socials = \<lparr>twitter = None, website = None\<rparr>, invites = [101]\<rparr>"
    and u3: "findById user_id (UserModel store6) 3 =
             Some \<lparr>user_id = 3, isAdmin = False, teams = [100, 102]\<rparr>"
    by (simp_all add: store6_eval findById_def)
  from leaveTeam_stores_removed [OF ok] show ?thesis
    by (auto simp: carol_def t u3)
qed

text \<open>
  Claim C10. The claim is that after a successful \<^verbatim>\<open>leaveTeam\<close> the team's stored
  member list is the one-element list of the caller and the caller's stored team list
  is the one-element list of the team they left. \<^verbatim>\<open>leaveTeam\<close>, which by its doc
  comment "removes a user from a team", stores what \<^verbatim>\<open>splice\<close> removed instead of
  what it left, and where the caller's team list does not contain the team,
  \<^verbatim>\<open>indexOf\<close> is \<open>-1\<close> and \<^verbatim>\<open>splice(-1, 1)\<close> removes the last entry. After
  Carol has left team 100 her team list is \<open>[100]\<close>, though she is still a member of
  team 102. When she then leaves team 102 the call succeeds and the store is as it
  was: she is still in the member list of team 102, and her team list is still
  \<open>[100]\<close> and not \<open>[102]\<close>.
\<close>

theorem leaveTeam_keeps_caller:
  "fst (leaveTeam store7 carol 102) = Inr ()
   \<and> snd (leaveTeam store7 carol 102) = store7
   \<and> map_option members (findById team_id (TeamModel store7) 102) = Some [3]
   \<and> map_option teams (findById user_id (UserModel store7) 3) = Some [100]
   \<and> map_option teams
        (findById user_id (UserModel (snd (leaveTeam store7 carol 102))) 3) \<noteq> Some [102]"
  by code_simp

section \<open>updateTeam\<close>

text \<open>
  The name and the Twitter handle of a patch are stored as given, when they are given
  and not the empty string.
\<close>

lemma applyDetails_name_twitter:
  assumes "truthyString (Some n)" and "truthyString (Some t)"
  shows "name (applyDetails tm \<lparr>new_name = Some n, new_socials = s\<rparr>) = n"
    and "twitter (socials (applyDetails tm
           \<lparr>new_name = x, new_socials = Some \<lparr>new_twitter = Some t, new_website = w\<rparr>\<rparr>)) = Some t"
  using assms by (simp_all add: applyDetails_def Let_def split: option.splits)

text \<open>
  Claim C3. The claim is that \<^verbatim>\<open>updateTeam\<close> sets the website to the website of the
  patch. The code assigns \<^verbatim>\<open>newDetails.socials.twitter\<close> to it: a patch with the
  Twitter handle "@alpha" and the website "alpha.example" stores the website "@alpha",
  and a patch with the website alone stores no website.
\<close>

theorem updateTeam_website_gets_twitter:
  "fst (updateTeam store1 alice 100
          \<lparr>new_name = None,
           new_socials = Some \<lparr>new_twitter = Some ''@alpha'',
                               new_website = Some ''alpha.example''\<rparr>\<rparr>) =
     Inr \<lparr>team_id = 100, name = ''alpha'', owner = Some 1, members = [],
          socials = \<lparr>twitter = Some ''@alpha'', website = Some ''@alpha''\<rparr>,
          invites = []\<rparr>
   \<and> map socials (TeamModel (snd (updateTeam store1 alice 100
          \<lparr>new_name = None,
           new_socials = Some \<lparr>new_twitter = None,
                               new_website = Some ''alpha.example''\<rparr>\<rparr>))) =
     [\<lparr>twitter = None, website = None\<rparr>]"
  by code_simp

text \<open>
  Claim C4. The claim is that team names stay unique, case-insensitively, under every
  operation. \<^verbatim>\<open>createTeam\<close> looks the name up and stores it in lower case;
  \<^verbatim>\<open>updateTeam\<close> stores the new name as given and looks nothing up: in the scenario,
  where the teams are "alpha" and "beta", Bob renames his team "beta" to "ALPHA", or to
  "alpha", and the store then holds two teams of the same name up to case.
\<close>

theorem updateTeam_rename_duplicates:
  "map name (TeamModel store4) = [''alpha'', ''beta'']
   \<and> map name (TeamModel (snd (updateTeam store4 bob 102
        \<lparr>new_name = Some ''ALPHA'', new_socials = None\<rparr>))) = [''alpha'', ''ALPHA'']
   \<and> asciiLowerCase ''ALPHA'' = asciiLowerCase ''alpha''
   \<and> map name (TeamModel (snd (updateTeam store4 bob 102
        \<lparr>new_name = Some ''alpha'', new_socials = None\<rparr>))) = [''alpha'', ''alpha'']"
  by code_simp

section \<open>The two variants of the service\<close>

text \<open>
  Where the variant differs from \<^verbatim>\<open>Team.ts\<close> in logging and in calling
  \<^verbatim>\<open>verifyJWT\<close> only, the two agree.
\<close>

lemma createTeam_logged_eq:
  "createTeam_logged toLowerCase st token teamName = createTeam toLowerCase st token teamName"
  by (simp add: createTeam_logged_def createTeam_def verifyJWT_def split: option.splits)

lemma createInvite_logged_eq:
  "createInvite_logged st token teamID inviteOptions randomCode now =
     createInvite st token teamID inviteOptions randomCode now"
  by (simp add: createInvite_logged_def createInvite_def verifyJWT_def split: option.splits)

lemma getInvite_logged_eq:
  "getInvite_logged basicInvite now st token inviteID =
     getInvite basicInvite now st token inviteID"
  by (simp add: getInvite_logged_def getInvite_def verifyJWT_def split: option.splits)

text \<open>
  Claim C9. The claim is that the two variants return the same result and make the same
  state change on every input. They do not: the variant does not await its lookups in
  \<^verbatim>\<open>useInvite\<close>, \<^verbatim>\<open>leaveTeam\<close>, \<^verbatim>\<open>deleteInvite\<close> and \<^verbatim>\<open>deleteTeam\<close>, so
  that Carol's \<^verbatim>\<open>useInvite\<close> and \<^verbatim>\<open>leaveTeam\<close>, which succeed in
  \<^verbatim>\<open>Team.ts\<close>, fail there with \<^verbatim>\<open>NotFoundError\<close> and change nothing; and the
  error code of \<^verbatim>\<open>getTeam\<close> for a caller outside the team is
  \<^verbatim>\<open>error_invalid_permissionseeeee\<close> in \<^verbatim>\<open>Team.ts\<close> and \<^verbatim>\<open>error_invalid_permissions\<close>
  in the variant.
\<close>

theorem variants_differ:
  "useInvite store4 carol ''c0ffee'' =
     (Inr \<lparr>team_id = 100, name = ''alpha'', owner = Some 1, members = [3],
           socials = \<lparr>twitter = None, website = None\<rparr>, invites = [101]\<rparr>, store5)
   \<and> useInvite_logged store4 carol ''c0ffee'' =
     (Inl (NotFoundError (withMessage ''Invite not found'')), store4)
   \<and> fst (leaveTeam store6 carol 100) = Inr ()
   \<and> leaveTeam_logged store6 carol 100 =
     (Inl (NotFoundError (withCode ''error_team_not_found'')), store6)
   \<and> getTeam store4 bob 100 =
     Inl (UnauthorizedError (withCode ''error_invalid_permissionseeeee''))
   \<and> getTeam_logged store4 bob 100 =
     Inl (UnauthorizedError (withCode ''error_invalid_permissions''))"
  by code_simp

end
